theory Spec2Isabelle
  imports Main "HOL-Library.Sublist"
begin

section \<open>Error types of the YAML loader (internal/libyaml/errors.go)\<close>

text \<open>
  The theory embeds the error types of \<^verbatim>\<open>internal/libyaml/errors.go\<close> and their methods:
  \<^verbatim>\<open>LoadError\<close>, \<^verbatim>\<open>ConstructError\<close>, \<^verbatim>\<open>LoadErrors\<close>, \<^verbatim>\<open>TypeError\<close>, \<^verbatim>\<open>YAMLError\<close> and
  \<^verbatim>\<open>handleErr\<close>. Go strings are byte sequences and are modelled as \<open>string\<close>; Go's \<^verbatim>\<open>int\<close>
  is modelled as \<open>int\<close> (no method does arithmetic on it). A method that can panic returns
  a sum whose left summand is the panic. The comments of the file name Go versions before
  and after 1.20; where the language or its library changed, a function takes the minor
  version of the toolchain (19 for Go 1.19) as its argument \<open>go\<close>.
\<close>

subsection \<open>Library functions used by the methods\<close>

text \<open>
  \<^verbatim>\<open>strings.Builder\<close>: the builder is the text written so far, \<^verbatim>\<open>WriteString\<close> appends to it
  and \<^verbatim>\<open>String()\<close> reads it.
\<close>

definition WriteString :: "string \<Rightarrow> string \<Rightarrow> string" where
  "WriteString builder s = builder @ s"

text \<open>The verb \<^verbatim>\<open>%d\<close> of package fmt: the decimal digits, after a minus sign below zero.\<close>

function show_nat :: "nat \<Rightarrow> string" where
  "show_nat n =
     (if n < 10 then [''0123456789'' ! n]
      else show_nat (n div 10) @ [''0123456789'' ! (n mod 10)])"
  by pat_completeness auto
termination
  by (relation "measure id") auto

declare show_nat.simps [simp del]

definition show_int :: "int \<Rightarrow> string" where
  "show_int i = (if i < 0 then CHR ''-'' # show_nat (nat (- i)) else show_nat (nat i))"

text \<open>
  \<^verbatim>\<open>strings.Join(elems, sep)\<close>: nothing for no element; otherwise the first element, then
  the separator and the element for each further one, written to a builder in a loop.
\<close>

fun Join_loop :: "string list \<Rightarrow> string \<Rightarrow> string \<Rightarrow> string" where
  "Join_loop [] sep b = b"
| "Join_loop (s # rest) sep b = Join_loop rest sep (WriteString (WriteString b sep) s)"

fun strings_Join :: "string list \<Rightarrow> string \<Rightarrow> string" where
  "strings_Join [] sep = []"
| "strings_Join (first # rest) sep = Join_loop rest sep (WriteString [] first)"

subsection \<open>Position marks\<close>

text \<open>
  The declaration of \<^verbatim>\<open>Mark\<close> is not in errors.go. Its fields are the ones the tests build
  (\<^verbatim>\<open>Mark{Line: ..., Column: ..., Index: ...}\<close>, all \<^verbatim>\<open>int\<close>); Go compares two marks field by
  field, which is the equality of the record. The methods \<^verbatim>\<open>String\<close>, \<^verbatim>\<open>shortString\<close> and
  \<^verbatim>\<open>rangeString\<close> of \<^verbatim>\<open>Mark\<close> are parameters of the functions that call them.
\<close>

record Mark =
  Line :: int
  Column :: int
  Index :: int

text \<open>
  Modelled from the spec: the method \<^verbatim>\<open>Mark.shortString\<close> is missing from the sources. The
  spec gives the single-point text as "line L, column C".
\<close>

definition Mark_shortString :: "Mark \<Rightarrow> string" where
  "Mark_shortString m =
     ''line '' @ show_int (Mark.Line m) @ '', column '' @ show_int (Mark.Column m)"

text \<open>
  Modelled from the spec: the method \<^verbatim>\<open>Mark.rangeString\<close> is missing from the sources. The
  spec says that it collapses to the single-point text when the two marks are equal and
  gives a two-point text from the receiver to the argument otherwise. The spec does not
  fix the two-point text; it is written here with a dash between the two points, as in the
  comment of \<^verbatim>\<open>LoadError.Error\<close> ("at L:C-L:C"). No property below reads the two-point
  text: the general statements take the methods of \<^verbatim>\<open>Mark\<close> as parameters, and the
  examples have no context or a context at the primary mark.
\<close>

definition Mark_rangeString :: "Mark \<Rightarrow> Mark \<Rightarrow> string" where
  "Mark_rangeString m other =
     (if m = other then Mark_shortString m
      else Mark_shortString m @ ''-'' @ Mark_shortString other)"

subsection \<open>Error values\<close>

text \<open>
  \<^verbatim>\<open>type Stage string\<close> with its six constants.
\<close>

type_synonym Stage = string

definition ReaderStage :: Stage where "ReaderStage = ''reader''"
definition ScannerStage :: Stage where "ScannerStage = ''scanner''"
definition ParserStage :: Stage where "ParserStage = ''parser''"
definition ComposerStage :: Stage where "ComposerStage = ''composer''"
definition ResolverStage :: Stage where "ResolverStage = ''resolver''"
definition ConstructorStage :: Stage where "ConstructorStage = ''constructor''"

text \<open>
  \<^verbatim>\<open>EmitterError\<close> is a struct used by value; its method \<^verbatim>\<open>Error\<close> writes "yaml: " before
  the message.
\<close>

record EmitterError =
  Message :: string

definition EmitterError_Error :: "EmitterError \<Rightarrow> string" where
  "EmitterError_Error e = ''yaml: '' @ EmitterError.Message e"

text \<open>
  A pointer is the address together with the value stored there.

  \<^verbatim>\<open>error\<close> is an interface: every type with a method \<^verbatim>\<open>Error() string\<close> has values of it.
  A value of the interface is \<open>None\<close> for \<^verbatim>\<open>nil\<close> and otherwise
  \<^item> the pointer returned by \<^verbatim>\<open>errors.New(text)\<close>,
  \<^item> a pointer to a \<^verbatim>\<open>LoadError\<close>, or
  \<^item> a value of any other type (\<open>Foreign\<close>), given by what the callers of the interface and
    \<^verbatim>\<open>errors.Is\<close> read of it: its identity, the text that its method \<^verbatim>\<open>Error\<close> returns, its
    method \<^verbatim>\<open>Is\<close>, and what its method \<^verbatim>\<open>Unwrap\<close> returns.

  The identity of a value is its dynamic type and its value: the address for a pointer
  type, the data for a comparable value type, and a number for a value of a type that Go
  does not compare (a slice, a map, a function). Two values are \<^verbatim>\<open>==\<close> when they have the
  same identity. With the memory fixed the identity determines the value, so a method
  \<^verbatim>\<open>Is(target)\<close> is a predicate on the identity of its target; a type without the method
  has the predicate that is false everywhere. A type has no method \<^verbatim>\<open>Unwrap\<close>, or
  \<^verbatim>\<open>Unwrap() error\<close> (which may return nil), or \<^verbatim>\<open>Unwrap() []error\<close> (written without its nil
  entries, in which \<^verbatim>\<open>errors.Is\<close> finds nothing). A value whose methods or whose comparison
  panic or do not return is not represented.

  The fields of \<^verbatim>\<open>LoadError\<close> are in the order of the struct.
\<close>

type_synonym 'a ptr = "nat \<times> 'a"

datatype go_value = Address nat | Data string | Opaque nat

type_synonym identity = "string \<times> go_value"

datatype 'e unwrapping = NoUnwrap | UnwrapOne "'e option" | UnwrapMany "'e list"

datatype error =
    ErrorString nat string
  | LoadErrorPtr nat LoadError
  | Foreign identity string "identity \<Rightarrow> bool" "error unwrapping"
and LoadError =
    LoadError (Stage: Stage) (Message: string) (Mark: Mark) (ContextMark: Mark)
      (ContextMsg: string) (Err: "error option")

record ConstructError =
  Err :: "error option"
  Line :: int
  Column :: int

record LoadErrors =
  Errors :: "LoadError ptr list"

record TypeError =
  Errors :: "string list"

record YAMLError =
  Err :: "error option"

text \<open>
  The run-time errors: the dereference of a nil pointer, and the \<^verbatim>\<open>*runtime.PanicNilError\<close>
  that \<^verbatim>\<open>panic(nil)\<close> raises from Go 1.21 on.
\<close>

datatype runtime_error = NilPointerDereference | PanicNilError

subsection \<open>LoadError\<close>

definition LoadError_Error ::
  "(Mark \<Rightarrow> string) \<Rightarrow> (Mark \<Rightarrow> Mark \<Rightarrow> string) \<Rightarrow> LoadError \<Rightarrow> string" where
  "LoadError_Error shortString rangeString e =
     (let builder = [];
          builder = WriteString builder ''go-yaml Load error: '';
          builder = WriteString builder (Message e);
          builder = WriteString builder ''\<newline>  in '';
          builder = WriteString builder (Stage e);
          builder =
            (if length (ContextMsg e) > 0 then
               let builder = WriteString builder '' ('';
                   builder = WriteString builder (ContextMsg e);
                   builder = WriteString builder '') at ''
               in WriteString builder (rangeString (ContextMark e) (Mark e))
             else
               let builder = WriteString builder '' at ''
               in WriteString builder (shortString (Mark e)))
      in builder)"

text \<open>
  \<^verbatim>\<open>fmt.Fprintf(&builder, "%s at %s: ", e.ContextMsg, e.ContextMark)\<close> writes the context
  message, the text of the context mark (the parameter \<open>Mark_String\<close>) and the literal parts of
  the format.
\<close>

definition simpleError :: "(Mark \<Rightarrow> string) \<Rightarrow> LoadError \<Rightarrow> string" where
  "simpleError Mark_String e =
     (let builder = [];
          builder =
            (if length (ContextMsg e) > 0 then
               WriteString builder (ContextMsg e @ '' at '' @ Mark_String (ContextMark e) @ '': '')
             else builder);
          builder =
            (if length (ContextMsg e) = 0 \<or> ContextMark e \<noteq> Mark e then
               (if Mark.Line (Mark e) > 0 then
                  WriteString builder (''line '' @ show_int (Mark.Line (Mark e)) @ '': '')
                else WriteString builder ''<unknown position>: '')
             else builder);
          builder = WriteString builder (Message e)
      in builder)"

definition LoadError_Unwrap :: "LoadError \<Rightarrow> error option" where
  "LoadError_Unwrap e = LoadError.Err e"

text \<open>
  The method \<^verbatim>\<open>Error()\<close> of an error value: the text given to \<^verbatim>\<open>errors.New\<close>,
  \<^verbatim>\<open>LoadError.Error\<close> behind a pointer to a \<^verbatim>\<open>LoadError\<close>, and the text of a value of another
  type.
\<close>

fun error_Error :: "(Mark \<Rightarrow> string) \<Rightarrow> (Mark \<Rightarrow> Mark \<Rightarrow> string) \<Rightarrow> error \<Rightarrow> string" where
  "error_Error shortString rangeString (ErrorString a s) = s"
| "error_Error shortString rangeString (LoadErrorPtr a e) =
     LoadError_Error shortString rangeString e"
| "error_Error shortString rangeString (Foreign k txt acc u) = txt"

subsection \<open>ConstructError\<close>

text \<open>
  \<^verbatim>\<open>e.Err.Error()\<close> on a nil interface value is a nil pointer dereference, a run-time panic.
\<close>

definition ConstructError_Error ::
  "(Mark \<Rightarrow> string) \<Rightarrow> (Mark \<Rightarrow> Mark \<Rightarrow> string) \<Rightarrow> ConstructError \<Rightarrow> runtime_error + string" where
  "ConstructError_Error shortString rangeString e =
     (case ConstructError.Err e of
        None \<Rightarrow> Inl NilPointerDereference
      | Some c \<Rightarrow>
          Inr (''line '' @ show_int (ConstructError.Line e) @ '': ''
                 @ error_Error shortString rangeString c))"

subsection \<open>LoadErrors\<close>

text \<open>
  The slice \<^verbatim>\<open>Errors\<close> holds pointers to \<^verbatim>\<open>LoadError\<close> values; it is the list of these
  pointers, none of them nil.
\<close>

fun Error_loop :: "(Mark \<Rightarrow> string) \<Rightarrow> LoadError ptr list \<Rightarrow> string \<Rightarrow> string" where
  "Error_loop Mark_String [] b = b"
| "Error_loop Mark_String (err # rest) b =
     Error_loop Mark_String rest
       (WriteString (WriteString b ''\<newline>  '') (simpleError Mark_String (snd err)))"

definition LoadErrors_Error :: "(Mark \<Rightarrow> string) \<Rightarrow> LoadErrors \<Rightarrow> string" where
  "LoadErrors_Error Mark_String e =
     Error_loop Mark_String (LoadErrors.Errors e) (WriteString [] ''yaml: construct errors:'')"

text \<open>
  \<^verbatim>\<open>As(target any)\<close> switches on the type of the target: a \<^verbatim>\<open>**LoadError\<close>, a
  \<^verbatim>\<open>**ConstructError\<close>, a \<^verbatim>\<open>**TypeError\<close>, or anything else. It returns \<^verbatim>\<open>false\<close> (here
  \<open>None\<close>) or stores a value through the target and returns \<^verbatim>\<open>true\<close> (here the stored
  value).
\<close>

datatype target = LoadErrorTarget | ConstructErrorTarget | TypeErrorTarget | OtherTarget

datatype as_value =
    AsLoadError "LoadError ptr"
  | AsConstructError ConstructError
  | AsTypeError TypeError

fun As_loop :: "(Mark \<Rightarrow> string) \<Rightarrow> LoadError ptr list \<Rightarrow> string list \<Rightarrow> string list" where
  "As_loop Mark_String [] msgs = msgs"
| "As_loop Mark_String (err # rest) msgs =
     As_loop Mark_String rest (msgs @ [simpleError Mark_String (snd err)])"

definition LoadErrors_As :: "(Mark \<Rightarrow> string) \<Rightarrow> LoadErrors \<Rightarrow> target \<Rightarrow> as_value option" where
  "LoadErrors_As Mark_String e t =
     (case t of
        LoadErrorTarget \<Rightarrow>
          (if length (LoadErrors.Errors e) = 0 then None
           else Some (AsLoadError (LoadErrors.Errors e ! 0)))
      | ConstructErrorTarget \<Rightarrow>
          (if length (LoadErrors.Errors e) = 0 then None
           else
             let first = snd (LoadErrors.Errors e ! 0)
             in Some (AsConstructError
                  \<lparr>ConstructError.Err = LoadError.Err first,
                   Line = Mark.Line (Mark first),
                   Column = Mark.Column (Mark first)\<rparr>))
      | TypeErrorTarget \<Rightarrow>
          Some (AsTypeError \<lparr>TypeError.Errors = As_loop Mark_String (LoadErrors.Errors e) []\<rparr>)
      | OtherTarget \<Rightarrow> None)"

text \<open>
  \<^verbatim>\<open>errors.Is(err, target)\<close> of the standard library. It reads its target through \<^verbatim>\<open>==\<close> and
  through the methods \<^verbatim>\<open>Is\<close> that it calls, that is through the identity of the target, so
  the target is passed here as its identity (\<open>None\<close> for nil).

  With one of the two nil it returns \<^verbatim>\<open>err == target\<close>. Otherwise it loops: it returns true
  when the type of the target is comparable and \<^verbatim>\<open>err == target\<close>; it returns true when
  \<^verbatim>\<open>err\<close> has a method \<^verbatim>\<open>Is\<close> and \<^verbatim>\<open>err.Is(target)\<close> holds; then it goes on with
  \<^verbatim>\<open>err.Unwrap()\<close>, returning false when there is no such method or it returns nil. From
  Go 1.20 on it also tries each error of \<^verbatim>\<open>Unwrap() []error\<close> in order; before, a value with
  that method ends the loop with false. A \<^verbatim>\<open>*LoadError\<close> has \<^verbatim>\<open>Unwrap() error\<close> and no method
  \<^verbatim>\<open>Is\<close>; the value of \<^verbatim>\<open>errors.New\<close> has neither.
\<close>

fun identity_of :: "error \<Rightarrow> identity" where
  "identity_of (ErrorString a s) = (''*errors.errorString'', Address a)"
| "identity_of (LoadErrorPtr a e) = (''*libyaml.LoadError'', Address a)"
| "identity_of (Foreign k txt acc u) = k"

fun comparable :: "identity \<Rightarrow> bool" where
  "comparable (ty, Opaque n) = False"
| "comparable (ty, v) = True"

definition equal_to :: "error \<Rightarrow> identity \<Rightarrow> bool" where
  "equal_to err target = (comparable target \<and> identity_of err = target)"

fun Is_method :: "error \<Rightarrow> identity \<Rightarrow> bool" where
  "Is_method (Foreign k txt acc u) target = acc target"
| "Is_method err target = False"

fun is_loop :: "nat \<Rightarrow> error \<Rightarrow> identity \<Rightarrow> bool"
  and is_each :: "nat \<Rightarrow> error list \<Rightarrow> identity \<Rightarrow> bool" where
  "is_loop go (ErrorString a s) target = equal_to (ErrorString a s) target"
| "is_loop go (LoadErrorPtr a (LoadError st msg m cm cmsg None)) target =
     equal_to (LoadErrorPtr a (LoadError st msg m cm cmsg None)) target"
| "is_loop go (LoadErrorPtr a (LoadError st msg m cm cmsg (Some c))) target =
     (if equal_to (LoadErrorPtr a (LoadError st msg m cm cmsg (Some c))) target then True
      else is_loop go c target)"
| "is_loop go (Foreign k txt acc NoUnwrap) target =
     (if equal_to (Foreign k txt acc NoUnwrap) target then True
      else if Is_method (Foreign k txt acc NoUnwrap) target then True
      else False)"
| "is_loop go (Foreign k txt acc (UnwrapOne None)) target =
     (if equal_to (Foreign k txt acc (UnwrapOne None)) target then True
      else if Is_method (Foreign k txt acc (UnwrapOne None)) target then True
      else False)"
| "is_loop go (Foreign k txt acc (UnwrapOne (Some c))) target =
     (if equal_to (Foreign k txt acc (UnwrapOne (Some c))) target then True
      else if Is_method (Foreign k txt acc (UnwrapOne (Some c))) target then True
      else is_loop go c target)"
| "is_loop go (Foreign k txt acc (UnwrapMany cs)) target =
     (if equal_to (Foreign k txt acc (UnwrapMany cs)) target then True
      else if Is_method (Foreign k txt acc (UnwrapMany cs)) target then True
      else if 20 \<le> go then is_each go cs target
      else False)"
| "is_each go [] target = False"
| "is_each go (c # cs) target =
     (if is_loop go c target then True else is_each go cs target)"

definition errors_Is :: "nat \<Rightarrow> error option \<Rightarrow> identity option \<Rightarrow> bool" where
  "errors_Is go err target =
     (case (err, target) of
        (Some x, Some t) \<Rightarrow> is_loop go x t
      | (None, None) \<Rightarrow> True
      | _ \<Rightarrow> False)"

text \<open>
  \<^verbatim>\<open>LoadErrors.Is(target)\<close>: the loop over the elements, each converted to \<^verbatim>\<open>error\<close> and given
  to \<^verbatim>\<open>errors.Is\<close>.
\<close>

fun LoadErrors_Is_loop :: "nat \<Rightarrow> LoadError ptr list \<Rightarrow> identity option \<Rightarrow> bool" where
  "LoadErrors_Is_loop go [] target = False"
| "LoadErrors_Is_loop go (err # rest) target =
     (if errors_Is go (Some (LoadErrorPtr (fst err) (snd err))) target then True
      else LoadErrors_Is_loop go rest target)"

definition LoadErrors_Is :: "nat \<Rightarrow> LoadErrors \<Rightarrow> error option \<Rightarrow> bool" where
  "LoadErrors_Is go e target =
     LoadErrors_Is_loop go (LoadErrors.Errors e) (map_option identity_of target)"

subsection \<open>TypeError\<close>

definition TypeError_Error :: "TypeError \<Rightarrow> string" where
  "TypeError_Error e =
     ''yaml: unmarshal errors:\<newline>  '' @ strings_Join (TypeError.Errors e) ''\<newline>  ''"

subsection \<open>The other error types of the package as error values\<close>

text \<open>
  An \<^verbatim>\<open>EmitterError\<close> is compared by its message and has no method \<^verbatim>\<open>Is\<close> or \<^verbatim>\<open>Unwrap\<close>.
  A \<^verbatim>\<open>*LoadErrors\<close> at an address has the text of \<^verbatim>\<open>LoadErrors.Error\<close>, the method
  \<^verbatim>\<open>LoadErrors.Is\<close> (called by \<^verbatim>\<open>errors.Is\<close> with a target that is not nil) and no method
  \<^verbatim>\<open>Unwrap\<close>. A \<^verbatim>\<open>*YAMLError\<close> at an address whose field \<^verbatim>\<open>Err\<close> is the error \<open>c\<close> has the text
  of \<open>c\<close> and no method \<^verbatim>\<open>Is\<close> or \<^verbatim>\<open>Unwrap\<close>. The values of \<^verbatim>\<open>WriterError\<close>, \<^verbatim>\<open>*ConstructError\<close>,
  \<^verbatim>\<open>*TypeError\<close> and of the error types of other packages are values of \<open>Foreign\<close> in the
  same way.
\<close>

definition EmitterError_value :: "EmitterError \<Rightarrow> error" where
  "EmitterError_value e =
     Foreign (''libyaml.EmitterError'', Data (EmitterError.Message e)) (EmitterError_Error e)
       (\<lambda>target. False) NoUnwrap"

definition LoadErrors_value :: "nat \<Rightarrow> (Mark \<Rightarrow> string) \<Rightarrow> nat \<Rightarrow> LoadErrors \<Rightarrow> error" where
  "LoadErrors_value go Mark_String a e =
     Foreign (''*libyaml.LoadErrors'', Address a) (LoadErrors_Error Mark_String e)
       (\<lambda>target. LoadErrors_Is_loop go (LoadErrors.Errors e) (Some target)) NoUnwrap"

definition YAMLError_value ::
  "(Mark \<Rightarrow> string) \<Rightarrow> (Mark \<Rightarrow> Mark \<Rightarrow> string) \<Rightarrow> nat \<Rightarrow> error \<Rightarrow> error" where
  "YAMLError_value shortString rangeString a c =
     Foreign (''*libyaml.YAMLError'', Address a) (error_Error shortString rangeString c)
       (\<lambda>target. False) NoUnwrap"

definition is_YAMLError :: "error \<Rightarrow> bool" where
  "is_YAMLError x = (fst (identity_of x) = ''*libyaml.YAMLError'')"

subsection \<open>YAMLError and handleErr\<close>

text \<open>
  A value given to \<^verbatim>\<open>panic\<close> is a \<^verbatim>\<open>*YAMLError\<close> (\<open>None\<close> for the nil pointer of that type), a
  run-time error, or a value of any other type.
\<close>

datatype 'v panic_value =
    YAMLErrorPtr "YAMLError option"
  | RuntimeError runtime_error
  | OtherPanic 'v

definition YAMLError_Error ::
  "(Mark \<Rightarrow> string) \<Rightarrow> (Mark \<Rightarrow> Mark \<Rightarrow> string) \<Rightarrow> YAMLError \<Rightarrow> runtime_error + string" where
  "YAMLError_Error shortString rangeString e =
     (case YAMLError.Err e of
        None \<Rightarrow> Inl NilPointerDereference
      | Some c \<Rightarrow> Inr (error_Error shortString rangeString c))"

text \<open>
  \<^verbatim>\<open>handleErr(err *error)\<close> runs deferred. Its first argument here is what \<^verbatim>\<open>recover()\<close>
  returns (\<open>None\<close> for nil), its second the error stored in \<^verbatim>\<open>*err\<close> when it starts. It ends
  by returning, with the error then stored in \<^verbatim>\<open>*err\<close>, or by panicking: \<^verbatim>\<open>panic(v)\<close> in the
  else branch, and the nil pointer dereference of \<^verbatim>\<open>e.Err\<close> when the recovered value is the
  nil \<^verbatim>\<open>*YAMLError\<close>.
\<close>

datatype 'v outcome = Returns "error option" | Panics "'v panic_value"

definition handleErr :: "'v panic_value option \<Rightarrow> error option \<Rightarrow> 'v outcome" where
  "handleErr recovered err =
     (case recovered of
        None \<Rightarrow> Returns err
      | Some v \<Rightarrow>
          (case v of
             YAMLErrorPtr p \<Rightarrow>
               (case p of
                  None \<Rightarrow> Panics (RuntimeError NilPointerDereference)
                | Some e \<Rightarrow> Returns (YAMLError.Err e))
           | _ \<Rightarrow> Panics v))"

text \<open>
  An entry point is a function with the named result \<^verbatim>\<open>err error\<close> that starts with
  \<^verbatim>\<open>defer handleErr(&err)\<close>. Its body either completes, leaving an error in the result,
  or unwinds from a \<^verbatim>\<open>panic\<close> raised in any frame below it, with some error in the result
  at that moment; the operand of that \<^verbatim>\<open>panic\<close> is a value or nil (\<open>None\<close>). The deferred
  call runs in both cases.

  While a \<^verbatim>\<open>panic(v)\<close> unwinds, \<^verbatim>\<open>recover()\<close> in the deferred call returns \<^verbatim>\<open>v\<close>. For
  \<^verbatim>\<open>panic(nil)\<close> it returns nil before Go 1.21, as if nothing were unwinding, and the
  unwinding stops all the same; from Go 1.21 on \<^verbatim>\<open>panic(nil)\<close> raises a
  \<^verbatim>\<open>*runtime.PanicNilError\<close> and that is what \<^verbatim>\<open>recover()\<close> returns.
\<close>

datatype 'v body =
    Completes "error option"
  | Unwinds "'v panic_value option" "error option"

definition recover :: "nat \<Rightarrow> 'v panic_value option \<Rightarrow> 'v panic_value option" where
  "recover go operand =
     (case operand of
        None \<Rightarrow> (if 21 \<le> go then Some (RuntimeError PanicNilError) else None)
      | Some v \<Rightarrow> Some v)"

fun entry_point :: "nat \<Rightarrow> 'v body \<Rightarrow> 'v outcome" where
  "entry_point go (Completes err) = handleErr None err"
| "entry_point go (Unwinds operand err) = handleErr (recover go operand) err"

text \<open>
  What the caller of an entry point can see of a \<^verbatim>\<open>*YAMLError\<close>: one returned as the error,
  or one that the entry point panics with. An error is free of it when it is nil or its
  dynamic type is another one.
\<close>

fun wrapper_free :: "error option \<Rightarrow> bool" where
  "wrapper_free None = True"
| "wrapper_free (Some x) = (\<not> is_YAMLError x)"

fun exposes_wrapper :: "'v outcome \<Rightarrow> bool" where
  "exposes_wrapper (Returns err) = (\<not> wrapper_free err)"
| "exposes_wrapper (Panics (YAMLErrorPtr p)) = True"
| "exposes_wrapper (Panics v) = False"

subsection \<open>The specification's wording, and the inputs of the examples\<close>

text \<open>
  The specification's "elements joined by a separator": the elements in order, with the
  separator between each two neighbours.
\<close>

fun spec_joined :: "string \<Rightarrow> string list \<Rightarrow> string" where
  "spec_joined sep [] = []"
| "spec_joined sep [x] = x"
| "spec_joined sep (x # y # ys) = x @ sep @ spec_joined sep (y # ys)"

text \<open>
  The specification's wording of the short form of a \<^verbatim>\<open>LoadError\<close>: the context prefix
  when a context is set and its mark differs from the primary mark, then always the
  position ("line N: " for a known line, "<unknown position>: " otherwise), then the
  message.
\<close>

definition spec_simpleFormat :: "(Mark \<Rightarrow> string) \<Rightarrow> LoadError \<Rightarrow> string" where
  "spec_simpleFormat Mark_String e =
     (if ContextMsg e \<noteq> [] \<and> ContextMark e \<noteq> Mark e
      then ContextMsg e @ '' at '' @ Mark_String (ContextMark e) @ '': '' else [])
     @ (if Mark.Line (Mark e) > 0 then ''line '' @ show_int (Mark.Line (Mark e)) @ '': ''
        else ''<unknown position>: '')
     @ Message e"

text \<open>
  The errors that \<^verbatim>\<open>errors.Is\<close> can visit from an error value: the value itself, then what
  \<^verbatim>\<open>Unwrap\<close> returns, and so on; the errors of \<^verbatim>\<open>Unwrap() []error\<close> only from Go 1.20 on.
\<close>

fun unwrap_reach :: "nat \<Rightarrow> error \<Rightarrow> error list"
  and unwrap_reach_each :: "nat \<Rightarrow> error list \<Rightarrow> error list" where
  "unwrap_reach go (ErrorString a s) = [ErrorString a s]"
| "unwrap_reach go (LoadErrorPtr a (LoadError st msg m cm cmsg None)) =
     [LoadErrorPtr a (LoadError st msg m cm cmsg None)]"
| "unwrap_reach go (LoadErrorPtr a (LoadError st msg m cm cmsg (Some c))) =
     LoadErrorPtr a (LoadError st msg m cm cmsg (Some c)) # unwrap_reach go c"
| "unwrap_reach go (Foreign k txt acc NoUnwrap) = [Foreign k txt acc NoUnwrap]"
| "unwrap_reach go (Foreign k txt acc (UnwrapOne None)) = [Foreign k txt acc (UnwrapOne None)]"
| "unwrap_reach go (Foreign k txt acc (UnwrapOne (Some c))) =
     Foreign k txt acc (UnwrapOne (Some c)) # unwrap_reach go c"
| "unwrap_reach go (Foreign k txt acc (UnwrapMany cs)) =
     Foreign k txt acc (UnwrapMany cs) # (if 20 \<le> go then unwrap_reach_each go cs else [])"
| "unwrap_reach_each go [] = []"
| "unwrap_reach_each go (c # cs) = unwrap_reach go c @ unwrap_reach_each go cs"

text \<open>The zero value of \<^verbatim>\<open>Mark\<close>, which a struct literal leaves in a field it does not set.\<close>

definition zero_Mark :: Mark where
  "zero_Mark = \<lparr>Mark.Line = 0, Column = 0, Index = 0\<rparr>"

text \<open>
  Scenario A of the specification: a parser error, message "bad indentation", at line 4,
  column 2, index 40, with no context and no cause.
\<close>

definition scenario_A :: LoadError where
  "scenario_A =
     LoadError ParserStage ''bad indentation'' \<lparr>Mark.Line = 4, Column = 2, Index = 40\<rparr>
       zero_Mark [] None"

text \<open>A constructor error whose context is set and whose context mark is the primary mark.\<close>

definition context_at_mark :: LoadError where
  "context_at_mark =
     LoadError ConstructorStage ''bad value'' \<lparr>Mark.Line = 3, Column = 1, Index = 10\<rparr>
       \<lparr>Mark.Line = 3, Column = 1, Index = 10\<rparr> ''while decoding'' None"

text \<open>
  The aggregates of the tests (\<^verbatim>\<open>buildConstructErrorList\<close>): each element is a constructor
  error with only the line of its mark set and with the cause \<^verbatim>\<open>errors.New(message)\<close>.
  Scenario C of the specification has one element, with message "X" at line 7.
\<close>

definition test_element :: "nat \<Rightarrow> nat \<Rightarrow> int \<Rightarrow> string \<Rightarrow> LoadError ptr" where
  "test_element a c line message =
     (a, LoadError ConstructorStage message (zero_Mark\<lparr>Mark.Line := line\<rparr>) zero_Mark []
           (Some (ErrorString c message)))"

definition scenario_C :: LoadErrors where
  "scenario_C = \<lparr>LoadErrors.Errors = [test_element 1 2 7 ''X'']\<rparr>"

definition scenario_B :: LoadErrors where
  "scenario_B =
     \<lparr>LoadErrors.Errors =
        [test_element 1 2 1 ''missing field'', test_element 3 4 3 ''wrong type'']\<rparr>"

text \<open>
  Three more aggregates of one element. The cause of the first is a \<^verbatim>\<open>*LoadErrors\<close>, the
  aggregate of scenario C at address 7. The cause of the second is an \<^verbatim>\<open>EmitterError\<close>.
  The cause of the third is an error with \<^verbatim>\<open>Unwrap() []error\<close>, as \<^verbatim>\<open>errors.Join\<close> returns,
  over two values of \<^verbatim>\<open>errors.New\<close>.
\<close>

definition nested_aggregate :: "nat \<Rightarrow> LoadErrors" where
  "nested_aggregate go =
     \<lparr>LoadErrors.Errors =
        [(6, LoadError ConstructorStage ''nested'' zero_Mark zero_Mark []
               (Some (LoadErrors_value go Mark_shortString 7 scenario_C)))]\<rparr>"

definition emitter_cause :: LoadErrors where
  "emitter_cause =
     \<lparr>LoadErrors.Errors =
        [(8, LoadError ConstructorStage ''write'' zero_Mark zero_Mark []
               (Some (EmitterError_value \<lparr>EmitterError.Message = ''disk full''\<rparr>)))]\<rparr>"

definition joined_cause :: LoadErrors where
  "joined_cause =
     \<lparr>LoadErrors.Errors =
        [(9, LoadError ConstructorStage ''joined'' zero_Mark zero_Mark []
               (Some (Foreign (''*errors.joinError'', Address 10) ''X\<newline>Y'' (\<lambda>target. False)
                  (UnwrapMany [ErrorString 11 ''X'', ErrorString 12 ''Y'']))))]\<rparr>"

section \<open>Properties\<close>

subsection \<open>Helper lemmas\<close>

lemma show_int_digit: "0 \<le> i \<Longrightarrow> i < 10 \<Longrightarrow> show_int i = [''0123456789'' ! nat i]"
  by (simp add: show_int_def show_nat.simps)

lemma Join_loop_append: "Join_loop xs sep b = b @ concat (map (\<lambda>s. sep @ s) xs)"
  by (induction xs arbitrary: b) (simp_all add: WriteString_def)

lemma spec_joined_Cons: "spec_joined sep (x # xs) = x @ concat (map (\<lambda>s. sep @ s) xs)"
  by (induction xs arbitrary: x) simp_all

lemma strings_Join_joined: "strings_Join xs sep = spec_joined sep xs"
  by (cases xs) (simp_all add: Join_loop_append spec_joined_Cons WriteString_def)

lemma Error_loop_append:
  "Error_loop Mark_String xs b =
     b @ concat (map (\<lambda>p. ''\<newline>  '' @ simpleError Mark_String (snd p)) xs)"
  by (induction xs arbitrary: b) (simp_all add: WriteString_def)

lemma As_loop_append:
  "As_loop Mark_String xs msgs = msgs @ map (\<lambda>p. simpleError Mark_String (snd p)) xs"
  by (induction xs arbitrary: msgs) simp_all

lemma simpleError_closed_form:
  "simpleError Mark_String e =
     (if ContextMsg e \<noteq> [] then ContextMsg e @ '' at '' @ Mark_String (ContextMark e) @ '': ''
      else [])
     @ (if ContextMsg e = [] \<or> ContextMark e \<noteq> Mark e then
          (if Mark.Line (Mark e) > 0 then ''line '' @ show_int (Mark.Line (Mark e)) @ '': ''
           else ''<unknown position>: '')
        else [])
     @ Message e"
  by (simp add: simpleError_def WriteString_def Let_def)

lemma LoadError_Error_closed_form:
  "LoadError_Error shortString rangeString e =
     ''go-yaml Load error: '' @ Message e @ ''\<newline>  in '' @ Stage e @
     (if ContextMsg e \<noteq> [] then
        '' ('' @ ContextMsg e @ '') at '' @ rangeString (ContextMark e) (Mark e)
      else '' at '' @ shortString (Mark e))"
  by (simp add: LoadError_Error_def WriteString_def Let_def)

lemma scenario_A_text:
  "LoadError_Error Mark_shortString rangeString scenario_A =
     ''go-yaml Load error: bad indentation\<newline>  in parser at line 4, column 2''"
  by (simp add: LoadError_Error_closed_form scenario_A_def ParserStage_def
      Mark_shortString_def show_int_digit)

lemma is_loop_reach:
  "is_loop go x t \<longleftrightarrow> (\<exists>y \<in> set (unwrap_reach go x). equal_to y t \<or> Is_method y t)"
  "is_each go xs t \<longleftrightarrow> (\<exists>y \<in> set (unwrap_reach_each go xs). equal_to y t \<or> Is_method y t)"
  by (induction go x t and go xs t rule: is_loop_is_each.induct) auto

lemma LoadErrors_Is_loop_iff:
  "LoadErrors_Is_loop go xs t \<longleftrightarrow>
     (\<exists>p \<in> set xs. errors_Is go (Some (LoadErrorPtr (fst p) (snd p))) t)"
  by (induction xs) simp_all

lemma LoadErrors_value_Is:
  "Is_method (LoadErrors_value go Mark_String a e) (identity_of t) = LoadErrors_Is go e (Some t)"
  by (simp add: LoadErrors_value_def LoadErrors_Is_def)

lemma panic_nil_from_1_21:
  "entry_point 21 (Unwinds None err) = Panics (RuntimeError PanicNilError)"
  by (simp add: recover_def handleErr_def)

lemma nested_wrapper_returned:
  "exposes_wrapper
     (entry_point go
        (Unwinds
           (Some (YAMLErrorPtr
              (Some \<lparr>YAMLError.Err = Some (YAMLError_value shortString rangeString a c)\<rparr>)))
           err))"
  by (simp add: recover_def handleErr_def YAMLError_value_def is_YAMLError_def)

lemma scenario_B_text:
  "LoadErrors_Error Mark_String scenario_B =
     ''yaml: construct errors:\<newline>  line 1: missing field\<newline>  line 3: wrong type''"
  by (simp add: LoadErrors_Error_def Error_loop_append WriteString_def scenario_B_def
      test_element_def zero_Mark_def simpleError_closed_form show_int_digit)

subsection \<open>Recovery at the entry points\<close>

text \<open>
  Claim C1, as amended. An entry point that defers \<^verbatim>\<open>handleErr\<close> and whose body unwinds
  with a \<^verbatim>\<open>*YAMLError\<close> carrying the error \<open>P\<close> returns normally with exactly \<open>P\<close> as its
  error, whatever the result held before, and its caller sees no \<^verbatim>\<open>*YAMLError\<close> unless \<open>P\<close>
  is one itself; an unwind with any other value that is not nil (a run-time error, a value
  of another type) is raised again with the same value; a body that completes leaves its
  error result as it is. No entry point ends by panicking with a \<^verbatim>\<open>*YAMLError\<close>. All of
  this holds on every toolchain.
\<close>

theorem handleErr_boundary:
  "entry_point go (Unwinds (Some (YAMLErrorPtr (Some \<lparr>YAMLError.Err = P\<rparr>))) err) = Returns P
   \<and> (wrapper_free P \<longrightarrow>
        \<not> exposes_wrapper
            (entry_point go (Unwinds (Some (YAMLErrorPtr (Some \<lparr>YAMLError.Err = P\<rparr>))) err)))
   \<and> entry_point go (Unwinds (Some (RuntimeError r)) err) = Panics (RuntimeError r)
   \<and> entry_point go (Unwinds (Some (OtherPanic v)) err) = Panics (OtherPanic v)
   \<and> entry_point go (Completes err) = Returns err
   \<and> entry_point go b \<noteq> Panics (YAMLErrorPtr w)"
proof -
  have never: "entry_point go b \<noteq> Panics (YAMLErrorPtr w)"
  proof (cases b)
    case (Completes e)
    then show ?thesis by (simp add: handleErr_def)
  next
    case (Unwinds operand e)
    show ?thesis
    proof (cases operand)
      case None
      with Unwinds show ?thesis by (simp add: recover_def handleErr_def)
    next
      case (Some x)
      with Unwinds show ?thesis
        by (cases x) (simp_all add: recover_def handleErr_def split: option.split)
    qed
  qed
  have wrapped:
    "entry_point go (Unwinds (Some (YAMLErrorPtr (Some \<lparr>YAMLError.Err = P\<rparr>))) err) = Returns P"
    by (simp add: recover_def handleErr_def)
  from never wrapped show ?thesis by (simp add: recover_def handleErr_def)
qed

text \<open>
  A body that panics with a \<^verbatim>\<open>*YAMLError\<close> around an \<^verbatim>\<open>errors.New("boom")\<close>: the entry point
  returns that error, and nothing of the wrapper.
\<close>

theorem handleErr_boundary_witness:
  "wrapper_free (Some (ErrorString 1 ''boom''))
   \<and> entry_point 19
        (Unwinds (Some (YAMLErrorPtr (Some \<lparr>YAMLError.Err = Some (ErrorString 1 ''boom'')\<rparr>)))
           None)
      = (Returns (Some (ErrorString 1 ''boom'')) :: unit outcome)
   \<and> \<not> exposes_wrapper
        (entry_point 19
           (Unwinds (Some (YAMLErrorPtr (Some \<lparr>YAMLError.Err = Some (ErrorString 1 ''boom'')\<rparr>)))
              None) :: unit outcome)"
proof -
  have h: "wrapper_free (Some (ErrorString 1 ''boom''))"
    by (simp add: is_YAMLError_def)
  show ?thesis
    using h handleErr_boundary [where go = 19 and P = "Some (ErrorString 1 ''boom'')"
        and err = None]
    by (simp add: recover_def handleErr_def)
qed

text \<open>
  The claim as stated fails for the unwind of \<^verbatim>\<open>panic(nil)\<close> on a toolchain before Go 1.21,
  which the file supports: \<^verbatim>\<open>recover()\<close> returns nil, \<^verbatim>\<open>handleErr\<close> does nothing, and the entry
  point returns normally with its error as it was, here nil. The unwind is not raised
  again.
\<close>

theorem handleErr_nil_panic_counterexample:
  "entry_point 20 (Unwinds None None) = (Returns None :: unit outcome)"
  by (simp add: recover_def handleErr_def)

subsection \<open>Matching an aggregate by type\<close>

text \<open>
  Claim C2. On an aggregate with at least one element, \<^verbatim>\<open>As\<close> with a \<^verbatim>\<open>**LoadError\<close>
  target succeeds with element 0; with a \<^verbatim>\<open>**ConstructError\<close> target it succeeds with a
  \<^verbatim>\<open>ConstructError\<close> whose cause is the cause of element 0 and whose line and column are
  those of the mark of element 0; with a \<^verbatim>\<open>**TypeError\<close> target it succeeds with one
  message per element, the i-th being \<^verbatim>\<open>simpleError()\<close> of element i; with a target of
  any other type it does not match.
\<close>

theorem LoadErrors_As_nonempty:
  assumes "LoadErrors.Errors e \<noteq> []"
  shows "LoadErrors_As Mark_String e LoadErrorTarget =
           Some (AsLoadError (LoadErrors.Errors e ! 0))
    \<and> LoadErrors_As Mark_String e ConstructErrorTarget =
        Some (AsConstructError
          \<lparr>ConstructError.Err = LoadError.Err (snd (LoadErrors.Errors e ! 0)),
           Line = Mark.Line (Mark (snd (LoadErrors.Errors e ! 0))),
           Column = Mark.Column (Mark (snd (LoadErrors.Errors e ! 0)))\<rparr>)
    \<and> (\<exists>msgs. LoadErrors_As Mark_String e TypeErrorTarget =
                 Some (AsTypeError \<lparr>TypeError.Errors = msgs\<rparr>)
          \<and> length msgs = length (LoadErrors.Errors e)
          \<and> (\<forall>i < length (LoadErrors.Errors e).
                msgs ! i = simpleError Mark_String (snd (LoadErrors.Errors e ! i))))
    \<and> LoadErrors_As Mark_String e OtherTarget = None"
  using assms by (simp add: LoadErrors_As_def As_loop_append Let_def)

text \<open>
  Scenario C of the specification: the cause of the view has the message "X" and its line
  is 7. The two elements of scenario B give two messages.
\<close>

theorem LoadErrors_As_nonempty_witness:
  "LoadErrors.Errors scenario_C \<noteq> []
   \<and> LoadErrors_As Mark_shortString scenario_C ConstructErrorTarget =
       Some (AsConstructError
         \<lparr>ConstructError.Err = Some (ErrorString 2 ''X''), Line = 7, Column = 0\<rparr>)
   \<and> LoadErrors_As Mark_shortString scenario_C LoadErrorTarget =
       Some (AsLoadError (test_element 1 2 7 ''X''))
   \<and> LoadErrors_As Mark_shortString scenario_C TypeErrorTarget =
       Some (AsTypeError \<lparr>TypeError.Errors = [''line 7: X'']\<rparr>)"
proof -
  have h: "LoadErrors.Errors scenario_C \<noteq> []"
    by (simp add: scenario_C_def)
  have t: "LoadErrors_As Mark_shortString scenario_C TypeErrorTarget =
       Some (AsTypeError \<lparr>TypeError.Errors = [''line 7: X'']\<rparr>)"
    by (simp add: LoadErrors_As_def scenario_C_def test_element_def zero_Mark_def
        simpleError_closed_form show_int_digit)
  show ?thesis
    using h t LoadErrors_As_nonempty [OF h, of Mark_shortString]
    by (simp add: scenario_C_def test_element_def zero_Mark_def)
qed

text \<open>
  Claim C3. On the aggregate with no element, \<^verbatim>\<open>As\<close> with a \<^verbatim>\<open>**TypeError\<close> target
  succeeds with an empty list of messages, and \<^verbatim>\<open>As\<close> with a \<^verbatim>\<open>**LoadError\<close> or a
  \<^verbatim>\<open>**ConstructError\<close> target fails.
\<close>

theorem LoadErrors_As_empty:
  "LoadErrors_As Mark_String \<lparr>LoadErrors.Errors = []\<rparr> TypeErrorTarget =
     Some (AsTypeError \<lparr>TypeError.Errors = []\<rparr>)
   \<and> LoadErrors_As Mark_String \<lparr>LoadErrors.Errors = []\<rparr> LoadErrorTarget = None
   \<and> LoadErrors_As Mark_String \<lparr>LoadErrors.Errors = []\<rparr> ConstructErrorTarget = None"
  by (simp add: LoadErrors_As_def)

subsection \<open>Matching an aggregate by value\<close>

text \<open>
  Claim C4, as amended. With a target that is not nil, \<^verbatim>\<open>LoadErrors.Is\<close> succeeds exactly
  when, for at least one element, one of the errors that \<^verbatim>\<open>errors.Is\<close> visits from the
  element (the element itself, then what \<^verbatim>\<open>Unwrap\<close> returns, again and again, through
  \<^verbatim>\<open>Unwrap() []error\<close> from Go 1.20 on) is equal to the target (\<^verbatim>\<open>==\<close>: the same dynamic type
  and the same value, for pointers the same address) or has a method \<^verbatim>\<open>Is\<close> that accepts the
  target. With a nil target it fails. The message texts are not compared. The errors are
  those whose methods and comparisons return.
\<close>

theorem LoadErrors_Is_identity:
  "(LoadErrors_Is go e (Some t) \<longleftrightarrow>
      (\<exists>p \<in> set (LoadErrors.Errors e).
         \<exists>y \<in> set (unwrap_reach go (LoadErrorPtr (fst p) (snd p))).
           equal_to y (identity_of t) \<or> Is_method y (identity_of t)))
   \<and> \<not> LoadErrors_Is go e None"
  by (simp add: LoadErrors_Is_def LoadErrors_Is_loop_iff errors_Is_def is_loop_reach)

text \<open>
  The aggregate of scenario C matches the cause of its element (the error at address 2)
  and the element itself (the \<^verbatim>\<open>LoadError\<close> at address 1). An aggregate whose element has
  the aggregate of scenario C as its cause matches the error at address 2 through the
  method \<^verbatim>\<open>Is\<close> of that cause. An \<^verbatim>\<open>EmitterError\<close> as cause matches an equal
  \<^verbatim>\<open>EmitterError\<close>. An error under an \<^verbatim>\<open>Unwrap() []error\<close> is matched by Go 1.21 and not by
  Go 1.19.
\<close>

theorem LoadErrors_Is_identity_witness:
  "LoadErrors_Is 19 scenario_C (Some (ErrorString 2 ''X''))
   \<and> LoadErrors_Is 19 scenario_C (Some (LoadErrorPtr 1 (snd (test_element 1 2 7 ''X''))))
   \<and> LoadErrors_Is 19 (nested_aggregate 19) (Some (ErrorString 2 ''X''))
   \<and> LoadErrors_Is 19 emitter_cause
        (Some (EmitterError_value \<lparr>EmitterError.Message = ''disk full''\<rparr>))
   \<and> LoadErrors_Is 21 joined_cause (Some (ErrorString 12 ''Y''))
   \<and> \<not> LoadErrors_Is 19 joined_cause (Some (ErrorString 12 ''Y''))"
  using LoadErrors_Is_identity [of 19 scenario_C "ErrorString 2 ''X''"]
    LoadErrors_Is_identity [of 19 scenario_C "LoadErrorPtr 1 (snd (test_element 1 2 7 ''X''))"]
    LoadErrors_Is_identity [of 19 "nested_aggregate 19" "ErrorString 2 ''X''"]
    LoadErrors_Is_identity
      [of 19 emitter_cause "EmitterError_value \<lparr>EmitterError.Message = ''disk full''\<rparr>"]
    LoadErrors_Is_identity [of 21 joined_cause "ErrorString 12 ''Y''"]
    LoadErrors_Is_identity [of 19 joined_cause "ErrorString 12 ''Y''"]
  by (simp add: scenario_C_def test_element_def nested_aggregate_def emitter_cause_def
      joined_cause_def LoadErrors_value_def EmitterError_value_def equal_to_def errors_Is_def)

text \<open>
  The claim as stated fails: a second \<^verbatim>\<open>errors.New("X")\<close>, at another address, has the
  message text of the cause of element 0, and \<^verbatim>\<open>Is\<close> does not match it, on Go 1.19 as on
  Go 1.21.
\<close>

theorem LoadErrors_Is_text_counterexample:
  "\<not> LoadErrors_Is 19 scenario_C (Some (ErrorString 5 ''X''))
   \<and> \<not> LoadErrors_Is 21 scenario_C (Some (ErrorString 5 ''X''))
   \<and> map_option (error_Error Mark_shortString Mark_rangeString)
        (LoadError.Err (snd (LoadErrors.Errors scenario_C ! 0)))
      = Some (error_Error Mark_shortString Mark_rangeString (ErrorString 5 ''X''))"
  by (simp add: LoadErrors_Is_def errors_Is_def equal_to_def scenario_C_def test_element_def)

subsection \<open>The texts of a LoadError\<close>

text \<open>
  Claim C5, as amended. \<^verbatim>\<open>simpleError()\<close> writes the prefix "<context message> at
  <context mark>: " exactly when the context message is not empty; then, exactly when the
  context message is empty or the context mark differs from the primary mark, "line N: "
  for a line greater than 0 and "<unknown position>: " otherwise; then the message as
  it is.
\<close>

theorem simpleError_format:
  "simpleError Mark_String e =
     (if ContextMsg e \<noteq> [] then ContextMsg e @ '' at '' @ Mark_String (ContextMark e) @ '': ''
      else [])
     @ (if ContextMsg e = [] \<or> ContextMark e \<noteq> Mark e then
          (if Mark.Line (Mark e) > 0 then ''line '' @ show_int (Mark.Line (Mark e)) @ '': ''
           else ''<unknown position>: '')
        else [])
     @ Message e"
  by (rule simpleError_closed_form)

text \<open>
  The claim as stated fails where a context is set at the primary mark: the code writes
  the context prefix and no position, the claim no prefix and the position. The text of
  the context mark is here the single-point text of the specification.
\<close>

theorem simpleError_spec_counterexample:
  "simpleError Mark_shortString context_at_mark =
     ''while decoding at line 3, column 1: bad value''
   \<and> spec_simpleFormat Mark_shortString context_at_mark = ''line 3: bad value''
   \<and> simpleError Mark_shortString context_at_mark \<noteq>
       spec_simpleFormat Mark_shortString context_at_mark"
  by (simp add: simpleError_closed_form spec_simpleFormat_def context_at_mark_def
      Mark_shortString_def show_int_digit)

text \<open>
  Claim C6, as amended. \<^verbatim>\<open>LoadError.Error()\<close> returns "go-yaml Load error: <message>",
  a line break, "  in <stage>", and then " (<context message>) at " with the range text of
  the context mark and the mark when the context message is not empty, " at " with the
  single-point text of the mark otherwise. Scenario A gives "go-yaml Load error: bad
  indentation", a line break and "  in parser at line 4, column 2".
\<close>

theorem LoadError_Error_format:
  "LoadError_Error shortString rangeString e =
     ''go-yaml Load error: '' @ Message e @ ''\<newline>  in '' @ Stage e @
     (if ContextMsg e \<noteq> [] then
        '' ('' @ ContextMsg e @ '') at '' @ rangeString (ContextMark e) (Mark e)
      else '' at '' @ shortString (Mark e))
   \<and> LoadError_Error Mark_shortString rangeString scenario_A =
       ''go-yaml Load error: bad indentation\<newline>  in parser at line 4, column 2''"
  by (rule conjI [OF LoadError_Error_closed_form scenario_A_text])

text \<open>
  The claim as stated fails: the text of scenario A is no namespace followed by
  " load error: bad indentation" and the rest, since the code writes "Load" with a
  capital letter.
\<close>

theorem LoadError_Error_lowercase_counterexample:
  "\<not> suffix '' load error: bad indentation\<newline>  in parser at line 4, column 2''
       (LoadError_Error Mark_shortString Mark_rangeString scenario_A)"
  by (simp add: scenario_A_text suffix_Cons)

text \<open>
  Claim C8. \<^verbatim>\<open>LoadError.Unwrap()\<close> returns nil exactly when the error has no cause, and
  otherwise the cause itself, whose \<^verbatim>\<open>Error()\<close> text is therefore that of the cause.
\<close>

theorem LoadError_Unwrap_cause:
  "(LoadError_Unwrap e = None \<longleftrightarrow> LoadError.Err e = None)
   \<and> (\<forall>c. LoadError.Err e = Some c \<longrightarrow>
          LoadError_Unwrap e = Some c
          \<and> map_option (error_Error shortString rangeString) (LoadError_Unwrap e)
              = Some (error_Error shortString rangeString c))"
  by (simp add: LoadError_Unwrap_def)

theorem LoadError_Unwrap_cause_witness:
  "LoadError.Err (snd (test_element 1 2 7 ''X'')) = Some (ErrorString 2 ''X'')
   \<and> LoadError_Unwrap (snd (test_element 1 2 7 ''X'')) = Some (ErrorString 2 ''X'')
   \<and> map_option (error_Error Mark_shortString Mark_rangeString)
        (LoadError_Unwrap (snd (test_element 1 2 7 ''X''))) = Some ''X''
   \<and> LoadError_Unwrap scenario_A = None"
  using
    LoadError_Unwrap_cause
      [of "snd (test_element 1 2 7 ''X'')" Mark_shortString Mark_rangeString]
    LoadError_Unwrap_cause [of scenario_A Mark_shortString Mark_rangeString]
  by (simp add: test_element_def scenario_A_def)

subsection \<open>The texts of the aggregate and of the legacy errors\<close>

text \<open>
  Claim C7. \<^verbatim>\<open>LoadErrors.Error()\<close> returns the header "yaml: construct errors:" followed,
  for each element in the order of the slice, by a line break, two spaces and
  \<^verbatim>\<open>simpleError()\<close> of the element: one line per element, none moved, dropped or merged.
\<close>

theorem LoadErrors_Error_format:
  "LoadErrors_Error Mark_String e =
     ''yaml: construct errors:'' @
     concat (map (\<lambda>p. ''\<newline>  '' @ simpleError Mark_String (snd p)) (LoadErrors.Errors e))"
  by (simp add: LoadErrors_Error_def Error_loop_append WriteString_def)

text \<open>
  Claim C9. \<^verbatim>\<open>TypeError.Error()\<close> returns "yaml: unmarshal errors:", a line break and two
  spaces, followed by the messages in order with a line break and two spaces between
  each two; with no message it returns the prefix alone.
\<close>

theorem TypeError_Error_format:
  "TypeError_Error e =
     ''yaml: unmarshal errors:\<newline>  '' @ spec_joined ''\<newline>  '' (TypeError.Errors e)
   \<and> TypeError_Error \<lparr>TypeError.Errors = []\<rparr> = ''yaml: unmarshal errors:\<newline>  ''"
  by (simp add: TypeError_Error_def strings_Join_joined)

text \<open>
  Claim C10, as amended. For a \<^verbatim>\<open>ConstructError\<close> whose cause is set,
  \<^verbatim>\<open>ConstructError.Error()\<close> returns "line <Line>: " followed by the message of the cause,
  and the field \<^verbatim>\<open>Column\<close> does not change the result.
\<close>

theorem ConstructError_Error_format:
  assumes "ConstructError.Err e = Some c"
  shows "ConstructError_Error shortString rangeString e =
           Inr (''line '' @ show_int (ConstructError.Line e) @ '': ''
                  @ error_Error shortString rangeString c)
         \<and> ConstructError_Error shortString rangeString (e\<lparr>Column := k\<rparr>) =
             ConstructError_Error shortString rangeString e"
  using assms by (simp add: ConstructError_Error_def)

theorem ConstructError_Error_format_witness:
  "ConstructError.Err \<lparr>ConstructError.Err = Some (ErrorString 2 ''X''), Line = 7, Column = 5\<rparr>
     = Some (ErrorString 2 ''X'')
   \<and> ConstructError_Error Mark_shortString Mark_rangeString
        \<lparr>ConstructError.Err = Some (ErrorString 2 ''X''), Line = 7, Column = 5\<rparr>
      = Inr ''line 7: X''
   \<and> ConstructError_Error Mark_shortString Mark_rangeString
        \<lparr>ConstructError.Err = Some (ErrorString 2 ''X''), Line = 7, Column = 0\<rparr>
      = Inr ''line 7: X''"
proof -
  have h: "ConstructError.Err
      \<lparr>ConstructError.Err = Some (ErrorString 2 ''X''), Line = 7, Column = 5\<rparr>
     = Some (ErrorString 2 ''X'')"
    by simp
  show ?thesis
    using ConstructError_Error_format [OF h, of Mark_shortString Mark_rangeString 0]
    by (simp add: show_int_digit)
qed

text \<open>
  The claim as stated fails for a \<^verbatim>\<open>ConstructError\<close> with no cause, which \<^verbatim>\<open>As\<close> builds
  from an aggregate whose element 0 has no cause: \<^verbatim>\<open>Error()\<close> returns no text, it panics.
\<close>

theorem ConstructError_Error_nil_counterexample:
  "LoadErrors_As Mark_shortString \<lparr>LoadErrors.Errors = [(1, context_at_mark)]\<rparr>
     ConstructErrorTarget =
     Some (AsConstructError \<lparr>ConstructError.Err = None, Line = 3, Column = 1\<rparr>)
   \<and> ConstructError_Error Mark_shortString Mark_rangeString
       \<lparr>ConstructError.Err = None, Line = 3, Column = 1\<rparr> = Inl NilPointerDereference"
  by (simp add: LoadErrors_As_def context_at_mark_def ConstructError_Error_def)

end
